theory Spec2Isabelle
  imports Main
begin

section \<open>The stock-adjustment route: PATCH /api/products/[id]/stock\<close>

text \<open>
  The route handler reads the product row with \<^verbatim>\<open>prisma.product.findUnique\<close>, adds the
  signed \<^verbatim>\<open>quantityChange\<close> of the request body to the stock it read, refuses a negative
  result and otherwise writes the sum back with \<^verbatim>\<open>prisma.product.update\<close>.

  The product table is a finite map from the product id to the row. Of a row only the
  columns the handler selects are kept. Stock quantities are JavaScript numbers holding
  integers; they are modelled as \<open>int\<close> (the width of the column is fixed by the database
  schema, which is not part of the sources). The rounding of the handler's addition on
  large numbers is modelled in a section of its own below.
\<close>

record product_row =
  db_productName :: string
  db_stockQuantity :: int

type_synonym product_table = "string \<rightharpoonup> product_row"

text \<open>
  JSON values of the request body. The handler tests \<^verbatim>\<open>quantityChange\<close> against
  \<^verbatim>\<open>undefined\<close> and \<^verbatim>\<open>null\<close> only; the route documents the field as an integer, and that is
  the third case of \<open>quantity_field\<close>. The \<^verbatim>\<open>operation\<close> field is destructured from the
  body and may hold any JSON value (\<open>JObject\<close> stands for an object or an array, whose
  contents are never inspected).
\<close>

datatype quantity_field = QUndefined | QNull | QInt int

datatype json = JUndefined | JNull | JBool bool | JNum int | JStr string | JObject

record stock_body =
  quantityChange :: quantity_field
  operation :: json

text \<open>
  The JSON responses of the handler: the HTTP status, the \<^verbatim>\<open>status\<close> and \<^verbatim>\<open>message\<close>
  fields, and the \<^verbatim>\<open>data\<close> object, which is absent, or holds the stock read and the
  change requested (insufficient stock), or the updated row with the previous stock, the
  new stock and the change (success).
\<close>

datatype payload =
    NoData
  | Shortage (currentStock: int) (requestedChange: int)
  | Updated (data_product: "string \<times> product_row") (previousStock: int) (newStock: int) (change: int)

record response =
  http_status :: nat
  status :: string
  message :: string
  data :: payload

definition quantity_required :: response where
  "quantity_required =
     \<lparr>http_status = 400, status = ''error'', message = ''Quantity change is required'',
      data = NoData\<rparr>"

definition product_not_found :: response where
  "product_not_found =
     \<lparr>http_status = 404, status = ''error'', message = ''Product not found'', data = NoData\<rparr>"

definition insufficient_stock :: "int \<Rightarrow> int \<Rightarrow> response" where
  "insufficient_stock cur q =
     \<lparr>http_status = 400, status = ''error'',
      message = ''Insufficient stock. Cannot reduce stock below 0.'',
      data = Shortage cur q\<rparr>"

definition stock_updated :: "string \<times> product_row \<Rightarrow> int \<Rightarrow> int \<Rightarrow> int \<Rightarrow> response" where
  "stock_updated u prev new q =
     \<lparr>http_status = 200, status = ''success'', message = ''Stock updated successfully'',
      data = Updated u prev new q\<rparr>"

definition update_failed :: response where
  "update_failed =
     \<lparr>http_status = 500, status = ''error'', message = ''Failed to update stock'',
      data = NoData\<rparr>"

text \<open>
  The two database calls. \<^verbatim>\<open>findUnique\<close> returns the row or \<^verbatim>\<open>null\<close>; \<^verbatim>\<open>update\<close> writes the
  stock column of an existing row and returns the row written, and throws when there is
  no row with that id (\<open>None\<close>).
\<close>

definition findUnique :: "product_table \<Rightarrow> string \<Rightarrow> product_row option" where
  "findUnique t i = t i"

definition update_stock :: "product_table \<Rightarrow> string \<Rightarrow> int \<Rightarrow> (product_table \<times> product_row) option" where
  "update_stock t i n =
     (case t i of
        None \<Rightarrow> None
      | Some r \<Rightarrow> Some (t(i \<mapsto> r\<lparr>db_stockQuantity := n\<rparr>), r\<lparr>db_stockQuantity := n\<rparr>))"

text \<open>
  The handler awaits the two database calls one after the other. \<open>PATCH_read\<close> is the
  handler up to and including the read (lines 314--345): it either replies at once or
  holds the row it read and the change. \<open>PATCH_write\<close> is the rest (lines 347--387), run
  against the table as it is when the write happens. An exception of the write is caught
  by the handler's \<^verbatim>\<open>catch\<close> and answered with status 500.
\<close>

datatype patch_read = Replied response | Loaded product_row int

definition PATCH_read :: "product_table \<Rightarrow> string \<Rightarrow> stock_body \<Rightarrow> patch_read" where
  "PATCH_read t i body =
     (case quantityChange body of
        QUndefined \<Rightarrow> Replied quantity_required
      | QNull \<Rightarrow> Replied quantity_required
      | QInt q \<Rightarrow>
          (case findUnique t i of
             None \<Rightarrow> Replied product_not_found
           | Some r \<Rightarrow> Loaded r q))"

definition PATCH_write :: "product_table \<Rightarrow> string \<Rightarrow> product_row \<Rightarrow> int \<Rightarrow> product_table \<times> response" where
  "PATCH_write t i r q =
     (let newStockQuantity = db_stockQuantity r + q in
      if newStockQuantity < 0 then (t, insufficient_stock (db_stockQuantity r) q)
      else
        (case update_stock t i newStockQuantity of
           None \<Rightarrow> (t, update_failed)
         | Some (t', u) \<Rightarrow> (t', stock_updated (i, u) (db_stockQuantity r) newStockQuantity q)))"

text \<open>One request served without any other request in between.\<close>

definition PATCH :: "product_table \<Rightarrow> string \<Rightarrow> stock_body \<Rightarrow> product_table \<times> response" where
  "PATCH t i body =
     (case PATCH_read t i body of
        Replied resp \<Rightarrow> (t, resp)
      | Loaded r q \<Rightarrow> PATCH_write t i r q)"

text \<open>The stock the table holds for a product (\<open>None\<close>: no such product).\<close>

definition stock_of :: "product_table \<Rightarrow> string \<Rightarrow> int option" where
  "stock_of t i = map_option db_stockQuantity (t i)"

section \<open>The handler's addition in double precision\<close>

text \<open>
  \<open>PATCH_write\<close> takes the sum of the stock and the change exactly. The handler adds two
  JavaScript numbers, and the change is a number the client supplies: beyond 2^53 the
  handler's sum is rounded. \<open>PATCH_double\<close> is the handler with the sum as JavaScript
  computes it; it agrees with \<open>PATCH\<close> whenever the exact sum is below 2^53 in magnitude.
\<close>

text \<open>
  The sum of an integer-valued double and another, as IEEE 754 binary64 addition gives it:
  the exact sum rounded to 53 significant bits, ties to the even significand, and to an
  infinity from 2^1024 on. \<open>bit_length\<close> is the number of binary digits.
\<close>

datatype number = Finite int | PosInfinity | NegInfinity

fun bit_length :: "nat \<Rightarrow> nat" where
  "bit_length n = (if n = 0 then 0 else Suc (bit_length (n div 2)))"

declare bit_length.simps [simp del]

definition round_magnitude :: "nat \<Rightarrow> nat" where
  "round_magnitude m =
     (let e = bit_length m - 53;
          q = m div 2 ^ e;
          r = m mod 2 ^ e;
          half = 2 ^ (e - 1)
      in (if r > half \<or> (r = half \<and> odd q) then q + 1 else q) * 2 ^ e)"

definition round_double :: "int \<Rightarrow> number" where
  "round_double n =
     (if \<bar>n\<bar> < 2 ^ 53 then Finite n
      else
        (let v = int (round_magnitude (nat \<bar>n\<bar>))
         in if v \<ge> 2 ^ 1024 then (if n < 0 then NegInfinity else PosInfinity)
            else Finite (if n < 0 then - v else v)))"

text \<open>The handler's \<^verbatim>\<open>product.stockQuantity + quantityChange\<close>, both operands being
  JavaScript numbers with integer values.\<close>

definition js_add :: "int \<Rightarrow> int \<Rightarrow> number" where
  "js_add a b = round_double (a + b)"

text \<open>
  The second part of the handler with that addition. \<^verbatim>\<open>-Infinity < 0\<close> holds, so a sum of
  \<open>NegInfinity\<close> is refused like any negative sum; \<open>PosInfinity\<close> is not an integer the stock
  column can hold, the database call throws and the \<^verbatim>\<open>catch\<close> answers 500.
\<close>

definition PATCH_write_double :: "product_table \<Rightarrow> string \<Rightarrow> product_row \<Rightarrow> int \<Rightarrow> product_table \<times> response" where
  "PATCH_write_double t i r q =
     (case js_add (db_stockQuantity r) q of
        NegInfinity \<Rightarrow> (t, insufficient_stock (db_stockQuantity r) q)
      | PosInfinity \<Rightarrow> (t, update_failed)
      | Finite newStockQuantity \<Rightarrow>
          if newStockQuantity < 0 then (t, insufficient_stock (db_stockQuantity r) q)
          else
            (case update_stock t i newStockQuantity of
               None \<Rightarrow> (t, update_failed)
             | Some (t', u) \<Rightarrow>
                 (t', stock_updated (i, u) (db_stockQuantity r) newStockQuantity q)))"

definition PATCH_double :: "product_table \<Rightarrow> string \<Rightarrow> stock_body \<Rightarrow> product_table \<times> response" where
  "PATCH_double t i body =
     (case PATCH_read t i body of
        Replied resp \<Rightarrow> (t, resp)
      | Loaded r q \<Rightarrow> PATCH_write_double t i r q)"


section \<open>The storefront page: cart and stock reservation\<close>

text \<open>
  The page keeps the products it shows (\<^verbatim>\<open>featuredProducts\<close>), the quantity chosen for
  each product (\<^verbatim>\<open>productQuantities\<close>), the cart as React state (\<^verbatim>\<open>cartItems\<close>) and the
  cart as stored under the key \<^verbatim>\<open>gomart:cart\<close> of the browser's local storage, which
  \<^verbatim>\<open>readCart\<close> parses and \<^verbatim>\<open>writeCart\<close> overwrites. Fields of a product and of a cart item
  that the cart functions only copy are represented by the name and the price. The field
  \<^verbatim>\<open>id\<close> of a product is \<open>product_id\<close>, and the fields that a cart item shares by name with
  a product carry the prefix \<open>cart_\<close>, as the columns of a table row carry \<open>db_\<close>.
\<close>

record Product =
  product_id :: string
  productName :: string
  price :: int
  stockQuantity :: int

record CartItem =
  productId :: string
  cart_productName :: string
  cart_price :: int
  quantity :: int
  cart_stockQuantity :: int

text \<open>
  Toast notifications. \<open>OnlyAvailable n\<close> is the template
  \<^verbatim>\<open>Only ${n} items available in stock\<close>, \<open>CannotAddMore n\<close> is
  \<^verbatim>\<open>Cannot add more. Only ${n} items available in stock\<close>, and \<open>RuntimeMessage\<close> is the
  message of an exception raised by the browser itself (a failed \<^verbatim>\<open>fetch\<close>).
\<close>

datatype toast_text = Text string | OnlyAvailable int | CannotAddMore int | RuntimeMessage

datatype toast = ToastError toast_text | ToastSuccess toast_text

record client =
  featuredProducts :: "Product list"
  productQuantities :: "string \<rightharpoonup> int"
  cartItems :: "CartItem list"
  storage :: "CartItem list"
  showCartPreview :: bool
  toasts :: "toast list"

text \<open>
  What lies outside the page: the product table behind the route, and the network. The
  network is a schedule that says, for each coming \<^verbatim>\<open>fetch\<close> in turn, whether the request
  reaches the server (\<open>True\<close>) or the call throws before reaching it (\<open>False\<close>); once the
  schedule is used up every request is delivered.
\<close>

record world =
  products :: product_table
  network :: "bool list"

text \<open>Exceptions that reach a \<^verbatim>\<open>catch\<close> of the page: a failed fetch, an \<^verbatim>\<open>Error\<close> built
  from the message of a response that is not ok, and a 2xx response without stock data.\<close>

datatype js_error = FetchFailed | Rejected string | BadResult

definition error_toast :: "js_error \<Rightarrow> string \<Rightarrow> toast" where
  "error_toast e fallback =
     (case e of
        Rejected m \<Rightarrow> ToastError (Text (if m = [] then fallback else m))
      | FetchFailed \<Rightarrow> ToastError RuntimeMessage
      | BadResult \<Rightarrow> ToastError RuntimeMessage)"

definition notify :: "toast \<Rightarrow> client \<Rightarrow> client" where
  "notify t c = c\<lparr>toasts := toasts c @ [t]\<rparr>"

definition readCart :: "client \<Rightarrow> CartItem list" where
  "readCart c = storage c"

text \<open>\<^verbatim>\<open>writeCart\<close> stores the items and dispatches a storage event; the page's own listener
  answers it by reading the cart back into \<^verbatim>\<open>cartItems\<close>.\<close>

definition writeCart :: "CartItem list \<Rightarrow> client \<Rightarrow> client" where
  "writeCart items c = (let c' = c\<lparr>storage := items\<rparr> in c'\<lparr>cartItems := readCart c'\<rparr>)"

definition setCartItems :: "CartItem list \<Rightarrow> client \<Rightarrow> client" where
  "setCartItems items c = c\<lparr>cartItems := items\<rparr>"

definition ok :: "response \<Rightarrow> bool" where
  "ok resp \<longleftrightarrow> 200 \<le> http_status resp \<and> http_status resp \<le> 299"

definition delivered :: "world \<Rightarrow> bool" where
  "delivered w = (case network w of [] \<Rightarrow> True | b # rest \<Rightarrow> b)"

definition fetch_PATCH :: "world \<Rightarrow> string \<Rightarrow> stock_body \<Rightarrow> world \<times> response option" where
  "fetch_PATCH w i body =
     (if delivered w
      then (let (t', resp) = PATCH (products w) i body
            in (w\<lparr>products := t', network := tl (network w)\<rparr>, Some resp))
      else (w\<lparr>network := tl (network w)\<rparr>, None))"

definition set_stock :: "string \<Rightarrow> int \<Rightarrow> Product list \<Rightarrow> Product list" where
  "set_stock i n ps = map (\<lambda>p. if product_id p = i then p\<lparr>stockQuantity := n\<rparr> else p) ps"

text \<open>
  \<^verbatim>\<open>updateProductStock\<close>, after the fetch: what the function does with the outcome of the
  request. The route sends the \<^verbatim>\<open>data\<close> object with every 2xx response.
\<close>

definition updateProductStock_result :: "client \<Rightarrow> string \<Rightarrow> response option \<Rightarrow> js_error + client" where
  "updateProductStock_result c i outcome =
     (case outcome of
        None \<Rightarrow> Inl FetchFailed
      | Some resp \<Rightarrow>
          if \<not> ok resp
          then Inl (Rejected (if message resp = [] then ''Failed to update stock'' else message resp))
          else
            (case data resp of
               Updated u prev new q \<Rightarrow>
                 Inr (c\<lparr>featuredProducts := set_stock i new (featuredProducts c)\<rparr>)
             | _ \<Rightarrow> Inl BadResult))"

definition updateProductStock :: "world \<Rightarrow> client \<Rightarrow> string \<Rightarrow> int \<Rightarrow> world \<times> (js_error + client)" where
  "updateProductStock w c i q =
     (let (w', outcome) = fetch_PATCH w i \<lparr>quantityChange = QInt q, operation = JUndefined\<rparr>
      in (w', updateProductStock_result c i outcome))"

text \<open>
  \<^verbatim>\<open>refreshProduct\<close> is only called for a product that is not among \<^verbatim>\<open>featuredProducts\<close>;
  its state update maps over that list and so changes nothing. What remains is that one
  GET request is made.
\<close>

definition refreshProduct :: "world \<Rightarrow> world" where
  "refreshProduct w = w\<lparr>network := tl (network w)\<rparr>"

fun findIndex :: "('a \<Rightarrow> bool) \<Rightarrow> 'a list \<Rightarrow> nat option" where
  "findIndex P [] = None"
| "findIndex P (x # xs) = (if P x then Some 0 else map_option Suc (findIndex P xs))"

text \<open>\<^verbatim>\<open>productQuantities[product.id] || 1\<close>\<close>

definition chosen_quantity :: "client \<Rightarrow> string \<Rightarrow> int" where
  "chosen_quantity c i =
     (case productQuantities c i of None \<Rightarrow> 1 | Some q \<Rightarrow> if q = 0 then 1 else q)"

text \<open>
  \<^verbatim>\<open>addToCart\<close> up to its \<^verbatim>\<open>try\<close> block (lines 193--240): the checks against the stock
  the page knows, and the cart to be written. It ends by refusing with an error toast, or
  with the quantity to take from the stock, the updated cart and the toast already shown.
\<close>

datatype add_plan = Refused toast | Planned int "CartItem list" toast

definition addToCart_plan :: "client \<Rightarrow> Product \<Rightarrow> add_plan" where
  "addToCart_plan c product =
     (let qty = chosen_quantity c (product_id product) in
      if qty > stockQuantity product
      then Refused (ToastError (OnlyAvailable (stockQuantity product)))
      else if stockQuantity product \<le> 0
      then Refused (ToastError (Text ''This product is out of stock''))
      else
        (let currentCart = readCart c in
         case findIndex (\<lambda>item. productId item = product_id product) currentCart of
           Some existingItemIndex \<Rightarrow>
             (let existingItem = currentCart ! existingItemIndex;
                  newQuantity = quantity existingItem + qty
              in if newQuantity > stockQuantity product
                 then Refused (ToastError (CannotAddMore (stockQuantity product)))
                 else Planned qty
                        (currentCart[existingItemIndex :=
                           existingItem\<lparr>quantity := newQuantity,
                                        cart_stockQuantity := stockQuantity product - qty\<rparr>])
                        (ToastSuccess (Text ''Updated quantity in cart'')))
         | None \<Rightarrow>
             Planned qty
               (currentCart @
                  [\<lparr>productId = product_id product, cart_productName = productName product,
                    cart_price = price product, quantity = qty,
                    cart_stockQuantity = stockQuantity product - qty\<rparr>])
               (ToastSuccess (Text ''Added to cart''))))"

text \<open>The \<^verbatim>\<open>try\<close> block of \<^verbatim>\<open>addToCart\<close> after \<^verbatim>\<open>updateProductStock\<close> has returned or thrown.\<close>

definition addToCart_finish :: "client \<Rightarrow> CartItem list \<Rightarrow> js_error + client \<Rightarrow> client" where
  "addToCart_finish c updatedCart outcome =
     (case outcome of
        Inr c' \<Rightarrow> (setCartItems updatedCart (writeCart updatedCart c'))\<lparr>showCartPreview := True\<rparr>
      | Inl e \<Rightarrow> notify (error_toast e ''Failed to update stock. Please try again.'') c)"

definition addToCart :: "world \<Rightarrow> client \<Rightarrow> Product \<Rightarrow> world \<times> client" where
  "addToCart w c product =
     (case addToCart_plan c product of
        Refused t \<Rightarrow> (w, notify t c)
      | Planned qtyChange updatedCart t \<Rightarrow>
          (let c1 = notify t c;
               (w', outcome) = updateProductStock w c1 (product_id product) (- qtyChange)
           in (w', addToCart_finish c1 updatedCart outcome)))"

definition updateCartQuantity :: "world \<Rightarrow> client \<Rightarrow> string \<Rightarrow> int \<Rightarrow> world \<times> client" where
  "updateCartQuantity w c pid delta =
     (case find (\<lambda>i. productId i = pid) (cartItems c) of
        None \<Rightarrow> (w, c)
      | Some item \<Rightarrow>
          (case find (\<lambda>p. product_id p = pid) (featuredProducts c) of
             None \<Rightarrow> (refreshProduct w, notify (ToastError (Text ''Product not found'')) c)
           | Some currentProduct \<Rightarrow>
               (let oldQuantity = quantity item;
                    availableStock = stockQuantity currentProduct
                in if delta > 0 \<and> availableStock < delta
                   then (w, notify (ToastError (OnlyAvailable availableStock)) c)
                   else
                     (let newQuantity =
                            (if delta > 0
                             then min (oldQuantity + delta) (oldQuantity + availableStock)
                             else max (oldQuantity + delta) 1);
                          updated =
                            map (\<lambda>cartItem.
                                   if productId cartItem \<noteq> pid then cartItem
                                   else cartItem\<lparr>quantity := newQuantity,
                                          cart_stockQuantity :=
                                            availableStock - (newQuantity - oldQuantity)\<rparr>)
                              (cartItems c);
                          stockChange = delta;
                          (w', outcome) = updateProductStock w c pid (- stockChange)
                      in case outcome of
                           Inr c' \<Rightarrow> (w', setCartItems updated (writeCart updated c'))
                         | Inl e \<Rightarrow>
                             (w', notify (error_toast e
                                    ''Failed to update stock. Please try again.'') c)))))"

definition removeFromCart :: "world \<Rightarrow> client \<Rightarrow> string \<Rightarrow> world \<times> client" where
  "removeFromCart w c pid =
     (case find (\<lambda>i. productId i = pid) (cartItems c) of
        None \<Rightarrow> (w, c)
      | Some item \<Rightarrow>
          (let quantityToRestore = quantity item;
               updated = filter (\<lambda>cartItem. productId cartItem \<noteq> pid) (cartItems c);
               (w', outcome) = updateProductStock w c pid quantityToRestore
           in case outcome of
                Inr c' \<Rightarrow>
                  (w', notify (ToastSuccess (Text ''Removed from cart''))
                         (setCartItems updated (writeCart updated c')))
              | Inl e \<Rightarrow>
                  (w', notify (error_toast e ''Failed to restore stock. Please try again.'') c)))"

text \<open>
  \<^verbatim>\<open>clearCart\<close> starts one \<^verbatim>\<open>updateProductStock\<close> per cart item, in cart order, each with
  its own \<^verbatim>\<open>catch\<close> that only logs to the console, and waits for all of them. The requests
  are served here in the order in which they were started; requests for different
  products touch different rows.
\<close>

fun restore_all :: "world \<Rightarrow> client \<Rightarrow> CartItem list \<Rightarrow> world \<times> client" where
  "restore_all w c [] = (w, c)"
| "restore_all w c (item # items) =
     (let (w', outcome) = updateProductStock w c (productId item) (quantity item)
      in case outcome of
           Inr c' \<Rightarrow> restore_all w' c' items
         | Inl e \<Rightarrow> restore_all w' c items)"

definition clearCart :: "world \<Rightarrow> client \<Rightarrow> world \<times> client" where
  "clearCart w c =
     (let (w', c') = restore_all w c (cartItems c)
      in (w', notify (ToastSuccess (Text ''Cart cleared'')) (setCartItems [] (writeCart [] c'))))"

text \<open>
  When a stock request of the page is accepted: it is delivered, the product exists and
  the change does not take its stock below 0.
\<close>

definition accepts :: "world \<Rightarrow> string \<Rightarrow> int \<Rightarrow> bool" where
  "accepts w i q \<longleftrightarrow>
     delivered w \<and> (case products w i of None \<Rightarrow> False | Some r \<Rightarrow> 0 \<le> db_stockQuantity r + q)"

section \<open>One client working on one product\<close>

text \<open>
  The two functions that set the quantity chosen for a product on the product card:
  the quantity is kept between 1 and the stock the page knows (\<^verbatim>\<open>product?.stockQuantity || 1\<close>).
\<close>

definition maxQuantity :: "client \<Rightarrow> string \<Rightarrow> int" where
  "maxQuantity c i =
     (case find (\<lambda>p. product_id p = i) (featuredProducts c) of
        None \<Rightarrow> 1
      | Some p \<Rightarrow> if stockQuantity p = 0 then 1 else stockQuantity p)"

definition updateQuantity :: "client \<Rightarrow> string \<Rightarrow> int \<Rightarrow> client" where
  "updateQuantity c i delta =
     c\<lparr>productQuantities := (productQuantities c)
          (i \<mapsto> min (max (chosen_quantity c i + delta) 1) (maxQuantity c i))\<rparr>"

definition setQuantity :: "client \<Rightarrow> string \<Rightarrow> int \<Rightarrow> client" where
  "setQuantity c i q =
     c\<lparr>productQuantities := (productQuantities c)(i \<mapsto> min (max q 1) (maxQuantity c i))\<rparr>"

text \<open>
  What one client can do with one product: choose a quantity on the product card, press
  ``Add to cart'' on the card (which passes the product as the page shows it), press the
  plus or minus button of the cart line, or remove the line.
\<close>

datatype cart_op = SetQuantity int | AddToCart | UpdateCartQuantity int | RemoveFromCart

fun apply_op :: "string \<Rightarrow> cart_op \<Rightarrow> world \<times> client \<Rightarrow> world \<times> client" where
  "apply_op i (SetQuantity q) (w, c) = (w, setQuantity c i q)"
| "apply_op i AddToCart (w, c) =
     (case find (\<lambda>p. product_id p = i) (featuredProducts c) of
        None \<Rightarrow> (w, c)
      | Some p \<Rightarrow> addToCart w c p)"
| "apply_op i (UpdateCartQuantity delta) (w, c) = updateCartQuantity w c i delta"
| "apply_op i RemoveFromCart (w, c) = removeFromCart w c i"

text \<open>The quantity of a product that the cart holds.\<close>

definition held_quantity :: "string \<Rightarrow> CartItem list \<Rightarrow> int" where
  "held_quantity i items = sum_list (map quantity (filter (\<lambda>item. productId item = i) items))"

text \<open>
  A decrease keeps the line at 1 or above: the change requested of \<^verbatim>\<open>updateCartQuantity\<close>
  is positive, or the quantity of the line plus the change is at least 1.
\<close>

definition above_minimum :: "string \<Rightarrow> cart_op \<Rightarrow> client \<Rightarrow> bool" where
  "above_minimum i opn c =
     (case opn of
        UpdateCartQuantity delta \<Rightarrow>
          delta > 0 \<or>
          (case find (\<lambda>item. productId item = i) (cartItems c) of
             None \<Rightarrow> True
           | Some item \<Rightarrow> 1 \<le> quantity item + delta)
      | _ \<Rightarrow> True)"

fun run :: "string \<Rightarrow> cart_op list \<Rightarrow> world \<times> client \<Rightarrow> world \<times> client" where
  "run i [] s = s"
| "run i (opn # ops) s = run i ops (apply_op i opn s)"

fun stays_above_minimum :: "string \<Rightarrow> cart_op list \<Rightarrow> world \<times> client \<Rightarrow> bool" where
  "stays_above_minimum i [] s = True"
| "stays_above_minimum i (opn # ops) s =
     (above_minimum i opn (snd s) \<and> stays_above_minimum i ops (apply_op i opn s))"

text \<open>Stock plus held quantity is \<open>n\<close>, the stock is not negative, and the cart is
  the stored cart with one line per product.\<close>

definition reserved_total :: "string \<Rightarrow> int \<Rightarrow> world \<times> client \<Rightarrow> bool" where
  "reserved_total i n s \<longleftrightarrow>
     stock_of (products (fst s)) i = Some (n - held_quantity i (cartItems (snd s)))
     \<and> held_quantity i (cartItems (snd s)) \<le> n
     \<and> storage (snd s) = cartItems (snd s)
     \<and> distinct (map productId (cartItems (snd s)))"

section \<open>Two stock requests served at the same time\<close>

text \<open>
  Between the two database calls of the handler the server may serve another request.
  A request in progress is \<open>Received\<close> (nothing done yet), \<open>Holding\<close> the row it read and
  the change, or \<open>Answered\<close>; \<open>NoRequest\<close> stands for a session that has sent nothing.
  One step of a handler is one of its two parts; a schedule says which of two sessions'
  handlers takes the next step.
\<close>

datatype handler = NoRequest | Received stock_body | Holding product_row int | Answered response

definition handler_step :: "product_table \<Rightarrow> string \<Rightarrow> handler \<Rightarrow> product_table \<times> handler" where
  "handler_step t i h =
     (case h of
        NoRequest \<Rightarrow> (t, NoRequest)
      | Received body \<Rightarrow>
          (case PATCH_read t i body of
             Replied resp \<Rightarrow> (t, Answered resp)
           | Loaded r q \<Rightarrow> (t, Holding r q))
      | Holding r q \<Rightarrow> (let (t', resp) = PATCH_write t i r q in (t', Answered resp))
      | Answered resp \<Rightarrow> (t, Answered resp))"

datatype session = SessionA | SessionB

fun serve :: "session list \<Rightarrow> string \<Rightarrow> product_table \<times> handler \<times> handler
    \<Rightarrow> product_table \<times> handler \<times> handler" where
  "serve [] i s = s"
| "serve (SessionA # sch) i (t, a, b) =
     (let (t', a') = handler_step t i a in serve sch i (t', a', b))"
| "serve (SessionB # sch) i (t, a, b) =
     (let (t', b') = handler_step t i b in serve sch i (t', a, b'))"

text \<open>
  An \<^verbatim>\<open>addToCart\<close> call whose request has been sent: the state of the page after the
  toast, and the cart to be written. When the answer arrives the call continues as in
  \<open>addToCart\<close>; while there is no answer nothing further happens.
\<close>

definition settle :: "client \<Rightarrow> string \<Rightarrow> CartItem list \<Rightarrow> handler \<Rightarrow> client" where
  "settle c1 i updatedCart h =
     (case h of
        Answered resp \<Rightarrow>
          addToCart_finish c1 updatedCart (updateProductStock_result c1 i (Some resp))
      | _ \<Rightarrow> c1)"

text \<open>
  Two sessions call \<^verbatim>\<open>addToCart\<close> for the same product; both requests reach the server,
  which serves them according to the schedule. A call refused by the page's own checks
  sends no request.
\<close>

definition request_of :: "add_plan \<Rightarrow> handler" where
  "request_of plan =
     (case plan of
        Refused t \<Rightarrow> NoRequest
      | Planned q cart t \<Rightarrow> Received \<lparr>quantityChange = QInt (- q), operation = JUndefined\<rparr>)"

definition conclude :: "client \<Rightarrow> string \<Rightarrow> add_plan \<Rightarrow> handler \<Rightarrow> client" where
  "conclude c i plan h =
     (case plan of
        Refused t \<Rightarrow> notify t c
      | Planned q cart t \<Rightarrow> settle (notify t c) i cart h)"

definition addToCart_two_sessions ::
    "session list \<Rightarrow> product_table \<Rightarrow> client \<Rightarrow> client \<Rightarrow> Product \<Rightarrow> product_table \<times> client \<times> client" where
  "addToCart_two_sessions sch t cA cB product =
     (let planA = addToCart_plan cA product;
          planB = addToCart_plan cB product;
          (t', hA, hB) = serve sch (product_id product) (t, request_of planA, request_of planB)
      in (t', conclude cA (product_id product) planA hA,
              conclude cB (product_id product) planB hB))"

text \<open>An \<^verbatim>\<open>addToCart\<close> call has succeeded when it has written its line to the stored cart.\<close>

definition holds_line :: "client \<Rightarrow> string \<Rightarrow> bool" where
  "holds_line c i \<longleftrightarrow> find (\<lambda>item. productId item = i) (storage c) \<noteq> None"

section \<open>The vendor login route: POST /api/auth/vendor-login\<close>

text \<open>
  The vendor table is a list of rows, in the order in which \<^verbatim>\<open>findFirst\<close> meets them;
  of a row the columns the route reads are kept, and the name. The fields \<^verbatim>\<open>identifier\<close>
  and \<^verbatim>\<open>password\<close> of the body are JSON values. \<^verbatim>\<open>String.prototype.trim\<close> and \<^verbatim>\<open>toLowerCase\<close> belong to the JavaScript runtime
  and enter the handler as parameters.
\<close>

record vendor =
  vendor_id :: string
  vendorName :: string
  email :: string
  phoneNumber :: string
  isActive :: bool

record login_body =
  body_identifier :: json
  body_password :: json

record login_response =
  login_http_status :: nat
  login_status :: string
  login_message :: string
  login_vendor :: "(vendor \<times> string) option"

text \<open>JavaScript truthiness, as the test \<^verbatim>\<open>!identifier || !password\<close> uses it.\<close>

definition truthy :: "json \<Rightarrow> bool" where
  "truthy v =
     (case v of
        JUndefined \<Rightarrow> False
      | JNull \<Rightarrow> False
      | JBool b \<Rightarrow> b
      | JNum n \<Rightarrow> n \<noteq> 0
      | JStr s \<Rightarrow> s \<noteq> []
      | JObject \<Rightarrow> True)"

definition credentials_missing :: login_response where
  "credentials_missing =
     \<lparr>login_http_status = 400, login_status = ''error'',
      login_message = ''Please provide email/phone and password'', login_vendor = None\<rparr>"

definition invalid_credentials :: login_response where
  "invalid_credentials =
     \<lparr>login_http_status = 401, login_status = ''error'',
      login_message = ''Invalid credentials'', login_vendor = None\<rparr>"

definition account_not_active :: login_response where
  "account_not_active =
     \<lparr>login_http_status = 403, login_status = ''error'',
      login_message = ''Your account is not active. Please contact support.'',
      login_vendor = None\<rparr>"

definition login_successful :: "vendor \<Rightarrow> login_response" where
  "login_successful v =
     \<lparr>login_http_status = 200, login_status = ''success'',
      login_message = ''Login successful'', login_vendor = Some (v, ''vendor'')\<rparr>"

definition login_failed :: login_response where
  "login_failed =
     \<lparr>login_http_status = 500, login_status = ''error'',
      login_message = ''Failed to login'', login_vendor = None\<rparr>"

definition findFirst :: "(vendor \<Rightarrow> bool) \<Rightarrow> vendor list \<Rightarrow> vendor option" where
  "findFirst P vendors = find P vendors"

text \<open>
  The handler. A truthy identifier that is not a string has no \<^verbatim>\<open>trim\<close> method: the call
  throws and the \<^verbatim>\<open>catch\<close> answers with status 500. After the lookup and the test of
  \<^verbatim>\<open>isActive\<close> the handler returns the vendor; the password is not read again.
\<close>

definition POST :: "(string \<Rightarrow> string) \<Rightarrow> (string \<Rightarrow> string) \<Rightarrow> vendor list \<Rightarrow> login_body
    \<Rightarrow> login_response" where
  "POST trim toLowerCase vendors body =
     (if \<not> truthy (body_identifier body) \<or> \<not> truthy (body_password body) then credentials_missing
      else
        (case body_identifier body of
           JStr s \<Rightarrow>
             (let normalizedIdentifier = toLowerCase (trim s) in
              case findFirst (\<lambda>v. email v = normalizedIdentifier \<or> phoneNumber v = trim s)
                     vendors of
                None \<Rightarrow> invalid_credentials
              | Some v \<Rightarrow> if \<not> isActive v then account_not_active else login_successful v)
         | _ \<Rightarrow> login_failed))"

text \<open>The two string functions on ASCII text, for the examples.\<close>

definition is_space :: "char \<Rightarrow> bool" where
  "is_space ch \<longleftrightarrow> ch \<in> set [CHR '' '', CHR 0x09, CHR 0x0A, CHR 0x0B, CHR 0x0C, CHR 0x0D]"

definition ascii_trim :: "string \<Rightarrow> string" where
  "ascii_trim s = rev (dropWhile is_space (rev (dropWhile is_space s)))"

definition ascii_lower :: "char \<Rightarrow> char" where
  "ascii_lower ch =
     (if 65 \<le> (of_char ch :: nat) \<and> (of_char ch :: nat) \<le> 90
      then char_of (of_char ch + (32 :: nat)) else ch)"

definition ascii_toLowerCase :: "string \<Rightarrow> string" where
  "ascii_toLowerCase s = map ascii_lower s"

section \<open>Example data\<close>

text \<open>A shop with two products, a visitor with an empty cart who has chosen quantity 3
  of the first product, and the same shop behind a network that drops the next request.\<close>

definition gari :: Product where
  "gari = \<lparr>product_id = ''p1'', productName = ''Gari'', price = 25, stockQuantity = 10\<rparr>"

definition shito :: Product where
  "shito = \<lparr>product_id = ''p2'', productName = ''Shito'', price = 40, stockQuantity = 4\<rparr>"

definition shop :: world where
  "shop = \<lparr>products = [''p1'' \<mapsto> \<lparr>db_productName = ''Gari'', db_stockQuantity = 10\<rparr>,
                        ''p2'' \<mapsto> \<lparr>db_productName = ''Shito'', db_stockQuantity = 4\<rparr>],
           network = []\<rparr>"


definition visitor :: client where
  "visitor = \<lparr>featuredProducts = [gari, shito], productQuantities = [''p1'' \<mapsto> 3],
              cartItems = [], storage = [], showCartPreview = False, toasts = []\<rparr>"




text \<open>A cart with two lines, and the shop while it holds them.\<close>

definition two_lines :: client where
  "two_lines = \<lparr>featuredProducts = [gari\<lparr>stockQuantity := 8\<rparr>, shito\<lparr>stockQuantity := 1\<rparr>],
     productQuantities = Map.empty,
     cartItems = [\<lparr>productId = ''p1'', cart_productName = ''Gari'', cart_price = 25,
                   quantity = 2, cart_stockQuantity = 8\<rparr>,
                  \<lparr>productId = ''p2'', cart_productName = ''Shito'', cart_price = 40,
                   quantity = 3, cart_stockQuantity = 1\<rparr>],
     storage = [\<lparr>productId = ''p1'', cart_productName = ''Gari'', cart_price = 25,
                   quantity = 2, cart_stockQuantity = 8\<rparr>,
                \<lparr>productId = ''p2'', cart_productName = ''Shito'', cart_price = 40,
                   quantity = 3, cart_stockQuantity = 1\<rparr>],
     showCartPreview = True, toasts = []\<rparr>"

definition held :: world where
  "held = \<lparr>products = [''p1'' \<mapsto> \<lparr>db_productName = ''Gari'', db_stockQuantity = 8\<rparr>,
                        ''p2'' \<mapsto> \<lparr>db_productName = ''Shito'', db_stockQuantity = 1\<rparr>],
           network = []\<rparr>"

text \<open>The last unit of a product, and a client who wants one unit of it.\<close>

definition last_unit :: product_table where
  "last_unit = [''p1'' \<mapsto> \<lparr>db_productName = ''Gari'', db_stockQuantity = 1\<rparr>]"

definition last_gari :: Product where
  "last_gari = \<lparr>product_id = ''p1'', productName = ''Gari'', price = 25, stockQuantity = 1\<rparr>"

definition buyer :: client where
  "buyer = \<lparr>featuredProducts = [last_gari], productQuantities = [''p1'' \<mapsto> 1],
            cartItems = [], storage = [], showCartPreview = False, toasts = []\<rparr>"

text \<open>Two vendors, the second of them not active.\<close>

definition ama :: vendor where
  "ama = \<lparr>vendor_id = ''v1'', vendorName = ''Ama Foods'', email = ''ama@shop.gh'',
          phoneNumber = ''0551234567'', isActive = True\<rparr>"

definition kofi :: vendor where
  "kofi = \<lparr>vendor_id = ''v2'', vendorName = ''Kofi Crafts'', email = ''kofi@shop.gh'',
          phoneNumber = ''0247654321'', isActive = False\<rparr>"

section \<open>Properties of the stock-adjustment route\<close>

lemma PATCH_int:
  "PATCH t i \<lparr>quantityChange = QInt d, operation = opn\<rparr> =
     (case t i of
        None \<Rightarrow> (t, product_not_found)
      | Some r \<Rightarrow>
          if db_stockQuantity r + d < 0 then (t, insufficient_stock (db_stockQuantity r) d)
          else (t(i \<mapsto> r\<lparr>db_stockQuantity := db_stockQuantity r + d\<rparr>),
                stock_updated (i, r\<lparr>db_stockQuantity := db_stockQuantity r + d\<rparr>)
                  (db_stockQuantity r) (db_stockQuantity r + d) d))"
  by (simp add: PATCH_def PATCH_read_def PATCH_write_def findUnique_def update_stock_def
      Let_def split: option.splits)





lemma round_double_nonnegative:
  assumes "0 \<le> n"
  shows "round_double n = PosInfinity \<or> (\<exists>v. round_double n = Finite v \<and> 0 \<le> v)"
  using assms by (simp add: round_double_def Let_def)








lemma PATCH_double_stock_nonnegative:
  "t i = Some r \<and> 0 \<le> db_stockQuantity r \<longrightarrow>
     (\<exists>n. stock_of (fst (PATCH_double t i body)) i = Some n \<and> 0 \<le> n)
     \<and> (\<forall>j. j \<noteq> i \<longrightarrow> fst (PATCH_double t i body) j = t j)"
  by (simp add: PATCH_double_def PATCH_read_def PATCH_write_double_def findUnique_def
      update_stock_def stock_of_def Let_def split: quantity_field.splits number.splits)

text \<open>
  C3. The stock of a product is never made negative by the route: whatever the request
  body (a missing, null or integer change of either sign), a product whose stock was
  non-negative before the request has a non-negative stock after it, whether the request
  was accepted or refused; and no other row is touched.
\<close>

theorem PATCH_stock_nonnegative:
  "t i = Some r \<and> 0 \<le> db_stockQuantity r \<longrightarrow>
     (\<exists>n. stock_of (fst (PATCH t i body)) i = Some n \<and> 0 \<le> n)
     \<and> (\<forall>j. j \<noteq> i \<longrightarrow> fst (PATCH t i body) j = t j)"
  by (simp add: PATCH_def PATCH_read_def PATCH_write_def findUnique_def update_stock_def
      stock_of_def Let_def split: quantity_field.splits)

theorem PATCH_stock_nonnegative_witness:
  "(\<exists>n. stock_of (fst (PATCH [''p1'' \<mapsto> \<lparr>db_productName = ''Gari'', db_stockQuantity = 2\<rparr>] ''p1''
        \<lparr>quantityChange = QInt (- 5), operation = JNull\<rparr>)) ''p1'' = Some n \<and> 0 \<le> n)
   \<and> (\<exists>n. stock_of (fst (PATCH [''p1'' \<mapsto> \<lparr>db_productName = ''Gari'', db_stockQuantity = 2\<rparr>] ''p1''
        \<lparr>quantityChange = QInt (- 2), operation = JNull\<rparr>)) ''p1'' = Some n \<and> 0 \<le> n)"
  using
    PATCH_stock_nonnegative [of "[''p1'' \<mapsto> \<lparr>db_productName = ''Gari'', db_stockQuantity = 2\<rparr>]" "''p1''"
      "\<lparr>db_productName = ''Gari'', db_stockQuantity = 2\<rparr>"
      "\<lparr>quantityChange = QInt (- 5), operation = JNull\<rparr>"]
    PATCH_stock_nonnegative [of "[''p1'' \<mapsto> \<lparr>db_productName = ''Gari'', db_stockQuantity = 2\<rparr>]" "''p1''"
      "\<lparr>db_productName = ''Gari'', db_stockQuantity = 2\<rparr>"
      "\<lparr>quantityChange = QInt (- 2), operation = JNull\<rparr>"]
  by simp

text \<open>
  C10. The route answers with the validation error (status 400, message
  ``Quantity change is required'') exactly when \<^verbatim>\<open>quantityChange\<close> is \<^verbatim>\<open>undefined\<close> or
  \<^verbatim>\<open>null\<close>. A change of 0 passes the validation: for a product that exists with a
  non-negative stock the request succeeds, the new stock reported equals the previous
  stock and the table is unchanged. The \<^verbatim>\<open>operation\<close> field of the body has no effect on
  the table or on the response.
\<close>

theorem PATCH_validation:
  "(snd (PATCH t i body) = quantity_required
      \<longleftrightarrow> quantityChange body = QUndefined \<or> quantityChange body = QNull)
   \<and> http_status quantity_required = 400
   \<and> (t i = Some r \<and> 0 \<le> db_stockQuantity r \<longrightarrow>
        fst (PATCH t i \<lparr>quantityChange = QInt 0, operation = opn\<rparr>) = t
        \<and> http_status (snd (PATCH t i \<lparr>quantityChange = QInt 0, operation = opn\<rparr>)) = 200
        \<and> newStock (data (snd (PATCH t i \<lparr>quantityChange = QInt 0, operation = opn\<rparr>)))
            = previousStock (data (snd (PATCH t i \<lparr>quantityChange = QInt 0, operation = opn\<rparr>)))
        \<and> previousStock (data (snd (PATCH t i \<lparr>quantityChange = QInt 0, operation = opn\<rparr>)))
            = db_stockQuantity r)
   \<and> PATCH t i (body\<lparr>operation := opn'\<rparr>) = PATCH t i body"
proof -
  have validation: "snd (PATCH t i body) = quantity_required
      \<longleftrightarrow> quantityChange body = QUndefined \<or> quantityChange body = QNull"
    by (simp add: PATCH_def PATCH_read_def PATCH_write_def findUnique_def update_stock_def
        quantity_required_def product_not_found_def insufficient_stock_def stock_updated_def
        Let_def split: quantity_field.splits option.splits)
  have zero: "t i = Some r \<and> 0 \<le> db_stockQuantity r \<longrightarrow>
        fst (PATCH t i \<lparr>quantityChange = QInt 0, operation = opn\<rparr>) = t
        \<and> http_status (snd (PATCH t i \<lparr>quantityChange = QInt 0, operation = opn\<rparr>)) = 200
        \<and> newStock (data (snd (PATCH t i \<lparr>quantityChange = QInt 0, operation = opn\<rparr>)))
            = previousStock (data (snd (PATCH t i \<lparr>quantityChange = QInt 0, operation = opn\<rparr>)))
        \<and> previousStock (data (snd (PATCH t i \<lparr>quantityChange = QInt 0, operation = opn\<rparr>)))
            = db_stockQuantity r"
    by (auto simp add: PATCH_int stock_updated_def)
  have ignored: "PATCH t i (body\<lparr>operation := opn'\<rparr>) = PATCH t i body"
    by (simp add: PATCH_def PATCH_read_def)
  show ?thesis
    using validation zero ignored by (simp add: quantity_required_def)
qed

theorem PATCH_validation_witness:
  "fst (PATCH [''p1'' \<mapsto> \<lparr>db_productName = ''Gari'', db_stockQuantity = 4\<rparr>] ''p1''
        \<lparr>quantityChange = QInt 0, operation = JStr ''add''\<rparr>)
     = [''p1'' \<mapsto> \<lparr>db_productName = ''Gari'', db_stockQuantity = 4\<rparr>]
   \<and> previousStock (data (snd (PATCH [''p1'' \<mapsto> \<lparr>db_productName = ''Gari'', db_stockQuantity = 4\<rparr>] ''p1''
        \<lparr>quantityChange = QInt 0, operation = JStr ''add''\<rparr>))) = 4
   \<and> newStock (data (snd (PATCH [''p1'' \<mapsto> \<lparr>db_productName = ''Gari'', db_stockQuantity = 4\<rparr>] ''p1''
        \<lparr>quantityChange = QInt 0, operation = JStr ''add''\<rparr>))) = 4
   \<and> snd (PATCH [''p1'' \<mapsto> \<lparr>db_productName = ''Gari'', db_stockQuantity = 4\<rparr>] ''p1''
        \<lparr>quantityChange = QNull, operation = JStr ''add''\<rparr>) = quantity_required
   \<and> snd (PATCH [''p1'' \<mapsto> \<lparr>db_productName = ''Gari'', db_stockQuantity = 4\<rparr>] ''p1''
        \<lparr>quantityChange = QInt (- 9), operation = JStr ''add''\<rparr>) \<noteq> quantity_required"
  using
    PATCH_validation [of "[''p1'' \<mapsto> \<lparr>db_productName = ''Gari'', db_stockQuantity = 4\<rparr>]" "''p1''"
      "\<lparr>quantityChange = QNull, operation = JStr ''add''\<rparr>"
      "\<lparr>db_productName = ''Gari'', db_stockQuantity = 4\<rparr>" "JStr ''add''" JNull]
    PATCH_validation [of "[''p1'' \<mapsto> \<lparr>db_productName = ''Gari'', db_stockQuantity = 4\<rparr>]" "''p1''"
      "\<lparr>quantityChange = QInt (- 9), operation = JStr ''add''\<rparr>"
      "\<lparr>db_productName = ''Gari'', db_stockQuantity = 4\<rparr>" "JStr ''add''" JNull]
  by simp

section \<open>Properties of the cart functions\<close>



lemma updateProductStock_accepted:
  "accepts w i q \<Longrightarrow> products w i = Some r \<Longrightarrow>
   updateProductStock w c i q =
     (w\<lparr>products := (products w)(i \<mapsto> r\<lparr>db_stockQuantity := db_stockQuantity r + q\<rparr>),
        network := tl (network w)\<rparr>,
      Inr (c\<lparr>featuredProducts := set_stock i (db_stockQuantity r + q) (featuredProducts c)\<rparr>))"
  by (simp add: accepts_def updateProductStock_def fetch_PATCH_def PATCH_int
      updateProductStock_result_def ok_def stock_updated_def)

lemma updateProductStock_refused:
  "\<not> accepts w i q \<Longrightarrow>
   \<exists>e. updateProductStock w c i q = (w\<lparr>network := tl (network w)\<rparr>, Inl e)"
  by (auto simp add: accepts_def updateProductStock_def fetch_PATCH_def PATCH_int
      updateProductStock_result_def ok_def product_not_found_def insufficient_stock_def
      split: option.splits)

lemma accepts_row: "accepts w i q \<Longrightarrow> \<exists>r. products w i = Some r"
  by (auto simp add: accepts_def split: option.splits)

lemma findIndex_Some:
  "findIndex P xs = Some k \<Longrightarrow> k < length xs \<and> P (xs ! k) \<and> find P xs = Some (xs ! k)"
proof (induction xs arbitrary: k)
  case Nil
  then show ?case by simp
next
  case (Cons x xs)
  show ?case
  proof (cases "P x")
    case True
    with Cons.prems show ?thesis by simp
  next
    case False
    with Cons.prems obtain k' where k': "findIndex P xs = Some k'" "k = Suc k'"
      by auto
    from Cons.IH [OF k'(1)] False k'(2) show ?thesis
      by simp
  qed
qed

lemma findIndex_None: "findIndex P xs = None \<longleftrightarrow> find P xs = None"
  by (induction xs) auto




lemma addToCart_refused:
  "addToCart_plan c p = Refused t \<Longrightarrow> addToCart w c p = (w, notify t c)"
  by (simp add: addToCart_def)


lemma addToCart_planned_accepted:
  assumes "addToCart_plan c p = Planned q cart t" and "accepts w (product_id p) (- q)"
    and "products w (product_id p) = Some r"
  shows "addToCart w c p =
     (w\<lparr>products := (products w)(product_id p \<mapsto> r\<lparr>db_stockQuantity := db_stockQuantity r - q\<rparr>),
        network := tl (network w)\<rparr>,
      (notify t c)\<lparr>featuredProducts := set_stock (product_id p) (db_stockQuantity r - q) (featuredProducts c),
         storage := cart, cartItems := cart, showCartPreview := True\<rparr>)"
  using assms
  by (simp add: addToCart_def updateProductStock_accepted addToCart_finish_def
      setCartItems_def writeCart_def readCart_def notify_def)

lemma addToCart_planned_refused:
  assumes "addToCart_plan c p = Planned q cart t" and "\<not> accepts w (product_id p) (- q)"
  shows "\<exists>e. addToCart w c p =
     (w\<lparr>network := tl (network w)\<rparr>,
      notify (error_toast e ''Failed to update stock. Please try again.'') (notify t c))"
proof -
  from updateProductStock_refused [OF assms(2)]
  obtain e where "updateProductStock w (notify t c) (product_id p) (- q)
      = (w\<lparr>network := tl (network w)\<rparr>, Inl e)"
    by blast
  with assms(1) show ?thesis
    by (intro exI [of _ e]) (simp add: addToCart_def addToCart_finish_def)
qed








lemma addToCart_plan_existing:
  assumes "findIndex (\<lambda>i. productId i = product_id p) (storage c) = Some k"
  shows "addToCart_plan c p =
     (if chosen_quantity c (product_id p) > stockQuantity p
      then Refused (ToastError (OnlyAvailable (stockQuantity p)))
      else if stockQuantity p \<le> 0 then Refused (ToastError (Text ''This product is out of stock''))
      else if quantity (storage c ! k) + chosen_quantity c (product_id p) > stockQuantity p
      then Refused (ToastError (CannotAddMore (stockQuantity p)))
      else Planned (chosen_quantity c (product_id p))
             ((storage c)[k := (storage c ! k)\<lparr>quantity := quantity (storage c ! k)
                  + chosen_quantity c (product_id p),
                cart_stockQuantity := stockQuantity p - chosen_quantity c (product_id p)\<rparr>])
             (ToastSuccess (Text ''Updated quantity in cart'')))"
  using assms by (simp add: addToCart_plan_def readCart_def Let_def)




lemma removeFromCart_accepted:
  assumes "find (\<lambda>i. productId i = pid) (cartItems c) = Some item"
    and "accepts w pid (quantity item)" and "products w pid = Some r"
  shows "removeFromCart w c pid =
     (w\<lparr>products := (products w)(pid \<mapsto> r\<lparr>db_stockQuantity := db_stockQuantity r + quantity item\<rparr>),
        network := tl (network w)\<rparr>,
      c\<lparr>featuredProducts := set_stock pid (db_stockQuantity r + quantity item) (featuredProducts c),
        storage := filter (\<lambda>i. productId i \<noteq> pid) (cartItems c),
        cartItems := filter (\<lambda>i. productId i \<noteq> pid) (cartItems c),
        toasts := toasts c @ [ToastSuccess (Text ''Removed from cart'')]\<rparr>)"
  using assms
  by (simp add: removeFromCart_def updateProductStock_accepted setCartItems_def writeCart_def
      readCart_def notify_def Let_def)

lemma removeFromCart_refused:
  assumes "find (\<lambda>i. productId i = pid) (cartItems c) = Some item"
    and "\<not> accepts w pid (quantity item)"
  shows "\<exists>e. removeFromCart w c pid =
     (w\<lparr>network := tl (network w)\<rparr>,
      notify (error_toast e ''Failed to restore stock. Please try again.'') c)"
proof -
  from updateProductStock_refused [OF assms(2)]
  obtain e where "updateProductStock w c pid (quantity item)
      = (w\<lparr>network := tl (network w)\<rparr>, Inl e)"
    by blast
  with assms(1) show ?thesis
    by (intro exI [of _ e]) (simp add: removeFromCart_def Let_def)
qed












lemma clearCart_failed_restore_is_dropped:
  "stock_of (products (fst (clearCart (held\<lparr>network := [False]\<rparr>) two_lines))) ''p1'' = Some 8"
  by (simp add: clearCart_def two_lines_def held_def updateProductStock_def fetch_PATCH_def
     delivered_def updateProductStock_result_def PATCH_int ok_def stock_updated_def stock_of_def
     split_beta)

section \<open>Properties of two requests served at the same time\<close>

text \<open>A single session served in two steps is the call \<open>addToCart\<close> over a network that
  delivers the request.\<close>

lemma addToCart_one_session:
  assumes "delivered w"
  shows "products (fst (addToCart w c p))
       = fst (serve [SessionA, SessionA] (product_id p)
                (products w, request_of (addToCart_plan c p), NoRequest))
     \<and> snd (addToCart w c p)
       = conclude c (product_id p) (addToCart_plan c p)
           (fst (snd (serve [SessionA, SessionA] (product_id p)
                (products w, request_of (addToCart_plan c p), NoRequest))))"
proof (cases "addToCart_plan c p")
  case (Refused t)
  then show ?thesis
    by (simp add: addToCart_def request_of_def conclude_def handler_step_def)
next
  case (Planned q cart t)
  with assms show ?thesis
    by (simp add: addToCart_def request_of_def conclude_def handler_step_def settle_def
        updateProductStock_def fetch_PATCH_def PATCH_def split_beta Let_def
        split: patch_read.splits)
qed

lemma serve_serial_A:
  "serve [SessionA, SessionA, SessionB, SessionB] i (t, Received bodyA, Received bodyB) =
     (fst (PATCH (fst (PATCH t i bodyA)) i bodyB),
      Answered (snd (PATCH t i bodyA)),
      Answered (snd (PATCH (fst (PATCH t i bodyA)) i bodyB)))"
  by (simp add: handler_step_def PATCH_def split_beta split: patch_read.splits)

lemma serve_serial_B:
  "serve [SessionB, SessionB, SessionA, SessionA] i (t, Received bodyA, Received bodyB) =
     (fst (PATCH (fst (PATCH t i bodyB)) i bodyA),
      Answered (snd (PATCH (fst (PATCH t i bodyB)) i bodyA)),
      Answered (snd (PATCH t i bodyB)))"
  by (simp add: handler_step_def PATCH_def split_beta split: patch_read.splits)

lemma addToCart_plan_first:
  assumes "stockQuantity p = 1" and "chosen_quantity c (product_id p) = 1" and "storage c = []"
  shows "addToCart_plan c p = Planned 1
     [\<lparr>productId = product_id p, cart_productName = productName p,
       cart_price = price p, quantity = 1, cart_stockQuantity = 0\<rparr>]
     (ToastSuccess (Text ''Added to cart''))"
  using assms by (simp add: addToCart_plan_def readCart_def)

lemma settle_updated:
  "holds_line (settle c1 i [\<lparr>productId = i, cart_productName = n,
       cart_price = pr, quantity = 1, cart_stockQuantity = 0\<rparr>] (Answered (stock_updated u a b d))) i"
  by (simp add: settle_def updateProductStock_result_def ok_def stock_updated_def
      addToCart_finish_def setCartItems_def writeCart_def readCart_def holds_line_def)

lemma settle_insufficient:
  "storage c1 = [] \<Longrightarrow> \<not> holds_line (settle c1 i cart (Answered (insufficient_stock a d))) i"
  by (simp add: settle_def updateProductStock_result_def ok_def insufficient_stock_def
      addToCart_finish_def notify_def holds_line_def)

text \<open>
  C8. Two sessions, each with an empty cart and quantity 1 chosen, add a product of which
  one unit is in stock. When the server handles the two stock requests one after the
  other, in either order, exactly one of the two calls writes its line to its cart, and
  the stock ends at 0.
\<close>

theorem serial_requests_one_success:
  fixes t :: product_table and cA cB :: client and p :: Product and sch :: "session list"
  defines "R \<equiv> addToCart_two_sessions sch t cA cB p"
  shows
  "stock_of t (product_id p) = Some 1 \<and> stockQuantity p = 1
     \<and> chosen_quantity cA (product_id p) = 1 \<and> chosen_quantity cB (product_id p) = 1
     \<and> storage cA = [] \<and> storage cB = []
     \<and> (sch = [SessionA, SessionA, SessionB, SessionB]
          \<or> sch = [SessionB, SessionB, SessionA, SessionA]) \<longrightarrow>
     \<not> (holds_line (fst (snd R)) (product_id p) \<and> holds_line (snd (snd R)) (product_id p))
     \<and> (holds_line (fst (snd R)) (product_id p) \<or> holds_line (snd (snd R)) (product_id p))
     \<and> stock_of (fst R) (product_id p) = Some 0"
proof
  assume H: "stock_of t (product_id p) = Some 1 \<and> stockQuantity p = 1
     \<and> chosen_quantity cA (product_id p) = 1 \<and> chosen_quantity cB (product_id p) = 1
     \<and> storage cA = [] \<and> storage cB = []
     \<and> (sch = [SessionA, SessionA, SessionB, SessionB]
          \<or> sch = [SessionB, SessionB, SessionA, SessionA])"
  then obtain r where r: "t (product_id p) = Some r" "db_stockQuantity r = 1"
    by (auto simp add: stock_of_def)
  from H have planA: "addToCart_plan cA p = Planned 1
     [\<lparr>productId = product_id p, cart_productName = productName p,
       cart_price = price p, quantity = 1, cart_stockQuantity = 0\<rparr>]
     (ToastSuccess (Text ''Added to cart''))"
    by (simp add: addToCart_plan_first)
  from H have planB: "addToCart_plan cB p = Planned 1
     [\<lparr>productId = product_id p, cart_productName = productName p,
       cart_price = price p, quantity = 1, cart_stockQuantity = 0\<rparr>]
     (ToastSuccess (Text ''Added to cart''))"
    by (simp add: addToCart_plan_first)
  from H have empty: "storage (notify (ToastSuccess (Text ''Added to cart'')) cA) = []"
    "storage (notify (ToastSuccess (Text ''Added to cart'')) cB) = []"
    by (simp_all add: notify_def)
  from H consider "sch = [SessionA, SessionA, SessionB, SessionB]"
    | "sch = [SessionB, SessionB, SessionA, SessionA]"
    by blast
  then show "\<not> (holds_line (fst (snd R)) (product_id p) \<and> holds_line (snd (snd R)) (product_id p))
     \<and> (holds_line (fst (snd R)) (product_id p) \<or> holds_line (snd (snd R)) (product_id p))
     \<and> stock_of (fst R) (product_id p) = Some 0"
  proof cases
    case 1
    with planA planB r empty show ?thesis
      by (simp add: R_def addToCart_two_sessions_def request_of_def conclude_def
          serve_serial_A serve_serial_B PATCH_int settle_updated settle_insufficient
          stock_of_def del: serve.simps)
  next
    case 2
    with planA planB r empty show ?thesis
      by (simp add: R_def addToCart_two_sessions_def request_of_def conclude_def
          serve_serial_A serve_serial_B PATCH_int settle_updated settle_insufficient
          stock_of_def del: serve.simps)
  qed
qed

theorem serial_requests_one_success_witness:
  "holds_line (fst (snd (addToCart_two_sessions [SessionA, SessionA, SessionB, SessionB]
        last_unit buyer buyer last_gari))) ''p1''
     \<noteq> holds_line (snd (snd (addToCart_two_sessions [SessionA, SessionA, SessionB, SessionB]
        last_unit buyer buyer last_gari))) ''p1''
   \<and> stock_of (fst (addToCart_two_sessions [SessionA, SessionA, SessionB, SessionB]
        last_unit buyer buyer last_gari)) ''p1'' = Some 0"
  using serial_requests_one_success [where t = last_unit and cA = buyer and cB = buyer
      and p = last_gari and sch = "[SessionA, SessionA, SessionB, SessionB]"]
  by (auto simp add: last_unit_def buyer_def last_gari_def stock_of_def chosen_quantity_def)

text \<open>
  C8 as stated (at most one success for any two concurrent calls) does not hold: when the
  two handlers both read the stock before either writes it, both requests are answered
  with success, both sessions hold the single unit, and the stock ends at 0.
\<close>

theorem interleaved_requests_both_succeed:
  "holds_line (fst (snd (addToCart_two_sessions [SessionA, SessionB, SessionA, SessionB]
        last_unit buyer buyer last_gari))) ''p1''
   \<and> holds_line (snd (snd (addToCart_two_sessions [SessionA, SessionB, SessionA, SessionB]
        last_unit buyer buyer last_gari))) ''p1''
   \<and> stock_of (fst (addToCart_two_sessions [SessionA, SessionB, SessionA, SessionB]
        last_unit buyer buyer last_gari)) ''p1'' = Some 0"
  by (simp add: addToCart_two_sessions_def addToCart_plan_def chosen_quantity_def readCart_def
      request_of_def conclude_def handler_step_def PATCH_read_def PATCH_write_def
      findUnique_def update_stock_def settle_def updateProductStock_result_def ok_def
      stock_updated_def addToCart_finish_def setCartItems_def writeCart_def holds_line_def
      notify_def stock_of_def last_unit_def buyer_def last_gari_def Let_def)

text \<open>
  The write of the handler stores only a sum it has found non-negative, so no schedule of
  two handlers makes a stock negative either.
\<close>

lemma PATCH_write_nonnegative:
  assumes "\<forall>j r. t j = Some r \<longrightarrow> 0 \<le> db_stockQuantity r"
    and "fst (PATCH_write t i r0 q) j = Some r"
  shows "0 \<le> db_stockQuantity r"
  using assms
  by (auto simp add: PATCH_write_def update_stock_def Let_def
      split: if_splits option.splits)

lemma handler_step_nonnegative:
  assumes "\<forall>j r. t j = Some r \<longrightarrow> 0 \<le> db_stockQuantity r"
  shows "\<forall>j r. fst (handler_step t i h) j = Some r \<longrightarrow> 0 \<le> db_stockQuantity r"
proof (cases h)
  case (Holding r0 q)
  with PATCH_write_nonnegative [OF assms] show ?thesis
    by (auto simp add: handler_step_def split_beta)
qed (use assms in \<open>auto simp add: handler_step_def split: patch_read.splits\<close>)

lemma serve_nonnegative:
  "\<forall>j r. t j = Some r \<longrightarrow> 0 \<le> db_stockQuantity r
     \<Longrightarrow> \<forall>j r. fst (serve sch i (t, a, b)) j = Some r \<longrightarrow> 0 \<le> db_stockQuantity r"
proof (induction sch arbitrary: t a b)
  case Nil
  then show ?case by simp
next
  case (Cons s sch)
  show ?case
  proof (cases s)
    case SessionA
    from Cons.IH [OF handler_step_nonnegative [OF Cons.prems, of i a]] SessionA
    show ?thesis by (simp add: split_beta)
  next
    case SessionB
    from Cons.IH [OF handler_step_nonnegative [OF Cons.prems, of i b]] SessionB
    show ?thesis by (simp add: split_beta)
  qed
qed

section \<open>Properties of the vendor login route\<close>

lemma find_first_match:
  "(\<forall>u\<in>set pre. \<not> P u) \<Longrightarrow> P v \<Longrightarrow> find P (pre @ v # post) = Some v"
  by (induction pre) simp_all

lemma find_no_match: "(\<forall>u\<in>set xs. \<not> P u) \<Longrightarrow> find P xs = None"
  by (simp add: find_None_iff)

text \<open>
  C7. The login route never compares the password with anything; it tests that both
  fields are present and that the vendor found is active. A request whose identifier or
  password is missing or empty is answered 400. For a non-empty identifier string and a
  non-empty password: when no row matches the normalised identifier the answer is 401;
  otherwise the first row that matches decides, with 403 when it is not active and, when
  it is active, the success response (status 200) that carries this vendor, whatever the
  password is. The answer is the same for any two passwords that are present.
\<close>

theorem vendor_login_ignores_password:
  fixes trim toLowerCase :: "string \<Rightarrow> string" and vendors pre post :: "vendor list"
    and s p :: string and v :: vendor and ident pw pw' :: json
  defines "matches \<equiv> \<lambda>u. email u = toLowerCase (trim s) \<or> phoneNumber u = trim s"
  shows
    "(\<not> truthy ident \<or> \<not> truthy pw \<longrightarrow>
        POST trim toLowerCase vendors \<lparr>body_identifier = ident, body_password = pw\<rparr>
          = credentials_missing)
     \<and> login_http_status credentials_missing = 400
     \<and> (s \<noteq> [] \<and> p \<noteq> [] \<and> (\<forall>u\<in>set vendors. \<not> matches u) \<longrightarrow>
          POST trim toLowerCase vendors \<lparr>body_identifier = JStr s, body_password = JStr p\<rparr>
            = invalid_credentials)
     \<and> login_http_status invalid_credentials = 401
     \<and> (s \<noteq> [] \<and> p \<noteq> [] \<and> vendors = pre @ v # post \<and> (\<forall>u\<in>set pre. \<not> matches u)
          \<and> matches v \<and> \<not> isActive v \<longrightarrow>
          POST trim toLowerCase vendors \<lparr>body_identifier = JStr s, body_password = JStr p\<rparr>
            = account_not_active)
     \<and> login_http_status account_not_active = 403
     \<and> (s \<noteq> [] \<and> p \<noteq> [] \<and> vendors = pre @ v # post \<and> (\<forall>u\<in>set pre. \<not> matches u)
          \<and> matches v \<and> isActive v \<longrightarrow>
          POST trim toLowerCase vendors \<lparr>body_identifier = JStr s, body_password = JStr p\<rparr>
            = login_successful v)
     \<and> login_http_status (login_successful v) = 200
     \<and> login_vendor (login_successful v) = Some (v, ''vendor'')
     \<and> (truthy pw \<and> truthy pw' \<longrightarrow>
          POST trim toLowerCase vendors \<lparr>body_identifier = ident, body_password = pw\<rparr>
            = POST trim toLowerCase vendors \<lparr>body_identifier = ident, body_password = pw'\<rparr>)"
proof -
  have missing: "\<not> truthy ident \<or> \<not> truthy pw \<longrightarrow>
        POST trim toLowerCase vendors \<lparr>body_identifier = ident, body_password = pw\<rparr>
          = credentials_missing"
    by (auto simp add: POST_def)
  have unknown: "POST trim toLowerCase vendors \<lparr>body_identifier = JStr s, body_password = JStr p\<rparr>
            = invalid_credentials"
    if "s \<noteq> []" "p \<noteq> []" "\<forall>u\<in>set vendors. \<not> matches u"
    using that find_no_match [of vendors matches]
    by (simp add: POST_def truthy_def findFirst_def matches_def)
  have found: "POST trim toLowerCase vendors \<lparr>body_identifier = JStr s, body_password = JStr p\<rparr>
            = (if isActive v then login_successful v else account_not_active)"
    if "s \<noteq> []" "p \<noteq> []" "vendors = pre @ v # post" "\<forall>u\<in>set pre. \<not> matches u" "matches v"
    using that find_first_match [of pre matches v post]
    by (simp add: POST_def truthy_def findFirst_def matches_def)
  have same: "truthy pw \<and> truthy pw' \<longrightarrow>
          POST trim toLowerCase vendors \<lparr>body_identifier = ident, body_password = pw\<rparr>
            = POST trim toLowerCase vendors \<lparr>body_identifier = ident, body_password = pw'\<rparr>"
    by (simp add: POST_def)
  have codes: "login_http_status credentials_missing = 400"
    "login_http_status invalid_credentials = 401"
    "login_http_status account_not_active = 403"
    "login_http_status (login_successful v) = 200"
    "login_vendor (login_successful v) = Some (v, ''vendor'')"
    by (simp_all add: credentials_missing_def invalid_credentials_def account_not_active_def
        login_successful_def)
  from missing unknown found same codes show ?thesis
    by simp
qed

lemma ama_normalised:
  "ascii_trim ''  Ama@Shop.GH '' = ''Ama@Shop.GH''"
  "ascii_toLowerCase ''Ama@Shop.GH'' = ''ama@shop.gh''"
  by code_simp+

lemma kofi_normalised:
  "ascii_trim ''0247654321'' = ''0247654321''"
  "ascii_toLowerCase ''0247654321'' = ''0247654321''"
  by code_simp+

theorem vendor_login_ignores_password_witness:
  "POST ascii_trim ascii_toLowerCase [kofi, ama]
      \<lparr>body_identifier = JStr ''  Ama@Shop.GH '', body_password = JStr ''wrong''\<rparr>
     = login_successful ama
   \<and> POST ascii_trim ascii_toLowerCase [kofi, ama]
      \<lparr>body_identifier = JStr ''  Ama@Shop.GH '', body_password = JStr ''''\<rparr>
     = credentials_missing
   \<and> POST ascii_trim ascii_toLowerCase [kofi, ama]
      \<lparr>body_identifier = JStr ''0247654321'', body_password = JStr ''wrong''\<rparr>
     = account_not_active
   \<and> POST ascii_trim ascii_toLowerCase [kofi]
      \<lparr>body_identifier = JStr ''  Ama@Shop.GH '', body_password = JStr ''wrong''\<rparr>
     = invalid_credentials
   \<and> POST ascii_trim ascii_toLowerCase [kofi, ama]
      \<lparr>body_identifier = JStr ''  Ama@Shop.GH '', body_password = JStr ''wrong''\<rparr>
     = POST ascii_trim ascii_toLowerCase [kofi, ama]
      \<lparr>body_identifier = JStr ''  Ama@Shop.GH '', body_password = JNum 7\<rparr>"
proof -
  note success = vendor_login_ignores_password [where trim = ascii_trim
      and toLowerCase = ascii_toLowerCase and vendors = "[kofi, ama]" and pre = "[kofi]"
      and v = ama and post = "[]" and s = "''  Ama@Shop.GH ''" and p = "''wrong''"
      and ident = "JStr ''  Ama@Shop.GH ''" and pw = "JStr ''wrong''" and pw' = "JNum 7"]
  note missing = vendor_login_ignores_password [where trim = ascii_trim
      and toLowerCase = ascii_toLowerCase and vendors = "[kofi, ama]"
      and ident = "JStr ''  Ama@Shop.GH ''" and pw = "JStr ''''"]
  note inactive = vendor_login_ignores_password [where trim = ascii_trim
      and toLowerCase = ascii_toLowerCase and vendors = "[kofi, ama]" and pre = "[]"
      and v = kofi and post = "[ama]" and s = "''0247654321''" and p = "''wrong''"]
  note unknown = vendor_login_ignores_password [where trim = ascii_trim
      and toLowerCase = ascii_toLowerCase and vendors = "[kofi]"
      and s = "''  Ama@Shop.GH ''" and p = "''wrong''"]
  have a: "POST ascii_trim ascii_toLowerCase [kofi, ama]
      \<lparr>body_identifier = JStr ''  Ama@Shop.GH '', body_password = JStr ''wrong''\<rparr>
     = login_successful ama"
    using success by (simp add: ama_normalised ama_def kofi_def)
  have b: "POST ascii_trim ascii_toLowerCase [kofi, ama]
      \<lparr>body_identifier = JStr ''  Ama@Shop.GH '', body_password = JStr ''''\<rparr>
     = credentials_missing"
    using missing by (simp add: truthy_def)
  have c: "POST ascii_trim ascii_toLowerCase [kofi, ama]
      \<lparr>body_identifier = JStr ''0247654321'', body_password = JStr ''wrong''\<rparr>
     = account_not_active"
    using inactive by (simp add: kofi_normalised kofi_def)
  have d: "POST ascii_trim ascii_toLowerCase [kofi]
      \<lparr>body_identifier = JStr ''  Ama@Shop.GH '', body_password = JStr ''wrong''\<rparr>
     = invalid_credentials"
    using unknown by (simp add: ama_normalised kofi_def)
  have e: "POST ascii_trim ascii_toLowerCase [kofi, ama]
      \<lparr>body_identifier = JStr ''  Ama@Shop.GH '', body_password = JStr ''wrong''\<rparr>
     = POST ascii_trim ascii_toLowerCase [kofi, ama]
      \<lparr>body_identifier = JStr ''  Ama@Shop.GH '', body_password = JNum 7\<rparr>"
    using success by (simp add: truthy_def)
  from a b c d e show ?thesis by simp
qed

section \<open>A run of cart operations on one product\<close>

lemmas cart_run_defs = addToCart_def addToCart_plan_def addToCart_finish_def
  updateCartQuantity_def removeFromCart_def updateProductStock_def
  updateProductStock_result_def fetch_PATCH_def delivered_def PATCH_int ok_def
  stock_updated_def set_stock_def setCartItems_def writeCart_def readCart_def notify_def
  chosen_quantity_def stock_of_def Let_def

text \<open>
  C2. One client, one product with stock 10, every request accepted. The client adds one
  unit (stock 9, the cart holds 1) and then presses the decrease button of the cart line:
  the quantity of the line is kept at its minimum of 1, but the stock request is sent with
  the unclamped change, so the stock rises to 10 while the cart still holds one unit.
\<close>

theorem decrease_at_minimum_raises_stock:
  "stock_of (products (fst (addToCart shop (visitor\<lparr>productQuantities := Map.empty\<rparr>) gari))) ''p1''
     = Some 9
   \<and> map quantity (cartItems (snd (addToCart shop (visitor\<lparr>productQuantities := Map.empty\<rparr>) gari)))
     = [1]
   \<and> stock_of (products (fst (updateCartQuantity
          (fst (addToCart shop (visitor\<lparr>productQuantities := Map.empty\<rparr>) gari))
          (snd (addToCart shop (visitor\<lparr>productQuantities := Map.empty\<rparr>) gari)) ''p1'' (- 1)))) ''p1''
     = Some 10
   \<and> map quantity (cartItems (snd (updateCartQuantity
          (fst (addToCart shop (visitor\<lparr>productQuantities := Map.empty\<rparr>) gari))
          (snd (addToCart shop (visitor\<lparr>productQuantities := Map.empty\<rparr>) gari)) ''p1'' (- 1))))
     = [1]"
  by (simp add: cart_run_defs shop_def visitor_def gari_def shito_def)

text \<open>The example of the specification: stock 10, add 3, raise the line to 5, remove it.\<close>

lemma reservation_example:
  "stock_of (products (fst (addToCart shop visitor gari))) ''p1'' = Some 7
   \<and> map quantity (cartItems (snd (addToCart shop visitor gari))) = [3]
   \<and> stock_of (products (fst (updateCartQuantity (fst (addToCart shop visitor gari))
          (snd (addToCart shop visitor gari)) ''p1'' 2))) ''p1'' = Some 5
   \<and> map quantity (cartItems (snd (updateCartQuantity (fst (addToCart shop visitor gari))
          (snd (addToCart shop visitor gari)) ''p1'' 2))) = [5]
   \<and> stock_of (products (fst (removeFromCart
          (fst (updateCartQuantity (fst (addToCart shop visitor gari))
             (snd (addToCart shop visitor gari)) ''p1'' 2))
          (snd (updateCartQuantity (fst (addToCart shop visitor gari))
             (snd (addToCart shop visitor gari)) ''p1'' 2)) ''p1''))) ''p1'' = Some 10
   \<and> cartItems (snd (removeFromCart
          (fst (updateCartQuantity (fst (addToCart shop visitor gari))
             (snd (addToCart shop visitor gari)) ''p1'' 2))
          (snd (updateCartQuantity (fst (addToCart shop visitor gari))
             (snd (addToCart shop visitor gari)) ''p1'' 2)) ''p1'')) = []"
  by (simp add: cart_run_defs shop_def visitor_def gari_def shito_def)

lemma reserved_total_same:
  "reserved_total i n (w, c) \<Longrightarrow> products w' i = products w i \<Longrightarrow> cartItems c' = cartItems c
     \<Longrightarrow> storage c' = storage c \<Longrightarrow> reserved_total i n (w', c')"
  by (simp add: reserved_total_def stock_of_def)

lemma reserved_total_row:
  "reserved_total i n (w, c) \<Longrightarrow> products w i = Some r
     \<Longrightarrow> db_stockQuantity r = n - held_quantity i (cartItems c)"
  by (simp add: reserved_total_def stock_of_def)

lemma reserved_total_moved:
  "reserved_total i n (w, c) \<Longrightarrow> products w i = Some r
     \<Longrightarrow> products w' i = Some (r\<lparr>db_stockQuantity := db_stockQuantity r - q\<rparr>)
     \<Longrightarrow> 0 \<le> db_stockQuantity r - q
     \<Longrightarrow> held_quantity i (cartItems c') = held_quantity i (cartItems c) + q
     \<Longrightarrow> storage c' = cartItems c' \<Longrightarrow> distinct (map productId (cartItems c'))
     \<Longrightarrow> reserved_total i n (w', c')"
  by (simp add: reserved_total_def stock_of_def)


lemma held_none: "find (\<lambda>item. productId item = i) xs = None \<Longrightarrow> held_quantity i xs = 0"
  by (induction xs) (auto simp add: held_quantity_def split: if_splits)

lemma held_single:
  "distinct (map productId xs) \<Longrightarrow> find (\<lambda>item. productId item = i) xs = Some x
     \<Longrightarrow> held_quantity i xs = quantity x"
proof (induction xs)
  case Nil
  then show ?case by simp
next
  case (Cons y ys)
  show ?case
  proof (cases "productId y = i")
    case True
    with Cons.prems have "x = y" and "find (\<lambda>item. productId item = i) ys = None"
      by (auto simp add: find_None_iff image_iff)
    with True held_none [of i ys] show ?thesis
      by (simp add: held_quantity_def)
  next
    case False
    with Cons show ?thesis
      by (simp add: held_quantity_def)
  qed
qed

lemma held_snoc:
  "held_quantity i (xs @ [x]) = held_quantity i xs + (if productId x = i then quantity x else 0)"
  by (simp add: held_quantity_def)

lemma held_update:
  "k < length xs \<Longrightarrow> productId (xs ! k) = i \<Longrightarrow> productId x = i
     \<Longrightarrow> held_quantity i (xs[k := x]) = held_quantity i xs - quantity (xs ! k) + quantity x"
proof (induction xs arbitrary: k)
  case Nil
  then show ?case by simp
next
  case (Cons y ys)
  then show ?case
    by (cases k) (auto simp add: held_quantity_def)
qed

lemma held_filter: "held_quantity i (filter (\<lambda>item. productId item \<noteq> i) xs) = 0"
  by (induction xs) (auto simp add: held_quantity_def)

lemma held_map:
  "distinct (map productId xs) \<Longrightarrow> find (\<lambda>item. productId item = i) xs = Some x
     \<Longrightarrow> held_quantity i
           (map (\<lambda>item. if productId item \<noteq> i then item
                         else item\<lparr>quantity := n, cart_stockQuantity := m\<rparr>) xs) = n"
proof (induction xs)
  case Nil
  then show ?case by simp
next
  case (Cons y ys)
  show ?case
  proof (cases "productId y = i")
    case True
    with Cons.prems have "\<forall>z\<in>set ys. productId z \<noteq> i"
      by (auto simp add: image_iff)
    then have "filter (\<lambda>item. productId item = i)
        (map (\<lambda>item. if productId item \<noteq> i then item
                         else item\<lparr>quantity := n, cart_stockQuantity := m\<rparr>) ys) = []"
      by (induction ys) auto
    with True show ?thesis
      by (simp add: held_quantity_def)
  next
    case False
    with Cons show ?thesis
      by (simp add: held_quantity_def)
  qed
qed

lemma ids_map:
  "map productId (map (\<lambda>item. if productId item \<noteq> i then item
                         else item\<lparr>quantity := n, cart_stockQuantity := m\<rparr>) xs) = map productId xs"
  by (induction xs) auto

lemma ids_update:
  "k < length xs \<Longrightarrow> productId x = productId (xs ! k)
     \<Longrightarrow> map productId (xs[k := x]) = map productId xs"
  by (simp add: map_update list_update_same_conv)


lemma find_None_ids:
  "find (\<lambda>item. productId item = i) xs = None \<Longrightarrow> i \<notin> set (map productId xs)"
  by (auto simp add: find_None_iff)

lemma addToCart_plan_held:
  assumes "addToCart_plan c p = Planned q cart t"
  shows "held_quantity (product_id p) cart = held_quantity (product_id p) (storage c) + q
     \<and> (distinct (map productId (storage c)) \<longrightarrow> distinct (map productId cart))"
proof (cases "findIndex (\<lambda>item. productId item = product_id p) (storage c)")
  case None
  then have none: "find (\<lambda>item. productId item = product_id p) (storage c) = None"
    by (simp add: findIndex_None)
  from assms None have "cart = storage c @
      [\<lparr>productId = product_id p, cart_productName = productName p,
        cart_price = price p, quantity = q, cart_stockQuantity = stockQuantity p - q\<rparr>]"
    by (auto simp add: addToCart_plan_def readCart_def Let_def split: if_splits)
  with find_None_ids [OF none] show ?thesis
    by (simp add: held_snoc)
next
  case (Some k)
  from findIndex_Some [OF Some]
  have k: "k < length (storage c)" "productId (storage c ! k) = product_id p"
    by simp_all
  from assms have "cart = (storage c)[k := (storage c ! k)\<lparr>quantity := quantity (storage c ! k) + q,
        cart_stockQuantity := stockQuantity p - q\<rparr>]"
    unfolding addToCart_plan_existing [OF Some]
    by (auto split: if_splits)
  with k show ?thesis
    by (simp add: held_update ids_update)
qed

lemma addToCart_keeps_total:
  assumes inv: "reserved_total i n (w, c)" and p: "product_id p = i"
  shows "reserved_total i n (addToCart w c p)"
proof (cases "addToCart_plan c p")
  case (Refused t)
  from addToCart_refused [OF Refused, of w] reserved_total_same [OF inv] show ?thesis
    by (simp add: notify_def)
next
  case (Planned q cart t)
  show ?thesis
  proof (cases "accepts w i (- q)")
    case True
    from accepts_row [OF True] obtain r where r: "products w i = Some r" ..
    from True r have stock: "0 \<le> db_stockQuantity r - q"
      by (simp add: accepts_def)
    from addToCart_plan_held [OF Planned] inv p
    have cart: "held_quantity i cart = held_quantity i (cartItems c) + q"
      "distinct (map productId cart)"
      by (simp_all add: reserved_total_def)
    from addToCart_planned_accepted [OF Planned] True r p
    have "addToCart w c p =
     (w\<lparr>products := (products w)(i \<mapsto> r\<lparr>db_stockQuantity := db_stockQuantity r - q\<rparr>),
        network := tl (network w)\<rparr>,
      (notify t c)\<lparr>featuredProducts := set_stock i (db_stockQuantity r - q) (featuredProducts c),
         storage := cart, cartItems := cart, showCartPreview := True\<rparr>)"
      by simp
    with reserved_total_moved [OF inv r _ stock] cart show ?thesis
      by simp
  next
    case False
    with p have "\<not> accepts w (product_id p) (- q)" by simp
    from addToCart_planned_refused [OF Planned this] obtain e
      where "addToCart w c p = (w\<lparr>network := tl (network w)\<rparr>,
        notify (error_toast e ''Failed to update stock. Please try again.'') (notify t c))"
      by blast
    with reserved_total_same [OF inv] show ?thesis
      by (simp add: notify_def)
  qed
qed

lemma removeFromCart_keeps_total:
  assumes inv: "reserved_total i n (w, c)"
  shows "reserved_total i n (removeFromCart w c i)"
proof (cases "find (\<lambda>item. productId item = i) (cartItems c)")
  case None
  with inv show ?thesis
    by (simp add: removeFromCart_def)
next
  case (Some item)
  from inv have dist: "distinct (map productId (cartItems c))"
    by (simp add: reserved_total_def)
  note held = held_single [OF dist Some]
  show ?thesis
  proof (cases "accepts w i (quantity item)")
    case True
    from accepts_row [OF True] obtain r where r: "products w i = Some r" ..
    from True r have stock: "0 \<le> db_stockQuantity r + quantity item"
      by (simp add: accepts_def)
    from removeFromCart_accepted [OF Some True r] held dist
      reserved_total_moved [OF inv r, where q = "- quantity item"] stock
    show ?thesis
      by (simp add: held_filter distinct_map_filter)
  next
    case False
    from removeFromCart_refused [OF Some False] obtain e
      where "removeFromCart w c i = (w\<lparr>network := tl (network w)\<rparr>,
        notify (error_toast e ''Failed to restore stock. Please try again.'') c)"
      by blast
    with reserved_total_same [OF inv] show ?thesis
      by (simp add: notify_def)
  qed
qed

lemma updateCartQuantity_keeps_total:
  assumes inv: "reserved_total i n (w, c)"
    and above: "above_minimum i (UpdateCartQuantity delta) c"
  shows "reserved_total i n (updateCartQuantity w c i delta)"
proof (cases "find (\<lambda>item. productId item = i) (cartItems c)")
  case None
  with inv show ?thesis
    by (simp add: updateCartQuantity_def)
next
  case item: (Some item)
  from inv have dist: "distinct (map productId (cartItems c))"
    by (simp add: reserved_total_def)
  note held = held_single [OF dist item]
  show ?thesis
  proof (cases "find (\<lambda>p. product_id p = i) (featuredProducts c)")
    case None
    with item reserved_total_same [OF inv] show ?thesis
      by (simp add: updateCartQuantity_def refreshProduct_def notify_def)
  next
    case (Some cp)
    show ?thesis
    proof (cases "delta > 0 \<and> stockQuantity cp < delta")
      case True
      with item Some reserved_total_same [OF inv] show ?thesis
        by (simp add: updateCartQuantity_def notify_def)
    next
      case proceed: False
      define newQuantity where "newQuantity =
         (if delta > 0 then min (quantity item + delta) (quantity item + stockQuantity cp)
          else max (quantity item + delta) 1)"
      define updated where "updated =
         map (\<lambda>cartItem. if productId cartItem \<noteq> i then cartItem
                else cartItem\<lparr>quantity := newQuantity,
                       cart_stockQuantity := stockQuantity cp - (newQuantity - quantity item)\<rparr>)
           (cartItems c)"
      from proceed above item have new: "newQuantity = quantity item + delta"
        by (auto simp add: newQuantity_def above_minimum_def)
      have upd: "held_quantity i updated = newQuantity" "distinct (map productId updated)"
        using dist item by (simp_all add: updated_def held_map ids_map del: map_map)
      have step: "updateCartQuantity w c i delta =
         (case snd (updateProductStock w c i (- delta)) of
            Inr c' \<Rightarrow> (fst (updateProductStock w c i (- delta)),
                        setCartItems updated (writeCart updated c'))
          | Inl e \<Rightarrow> (fst (updateProductStock w c i (- delta)),
                        notify (error_toast e ''Failed to update stock. Please try again.'') c))"
        using item Some proceed
        unfolding updated_def newQuantity_def updateCartQuantity_def Let_def
        by (simp add: split_beta)
      show ?thesis
      proof (cases "accepts w i (- delta)")
        case True
        from accepts_row [OF True] obtain r where r: "products w i = Some r" ..
        from True r have stock: "0 \<le> db_stockQuantity r - delta"
          by (simp add: accepts_def)
        from reserved_total_moved [OF inv r _ stock] held upd new show ?thesis
          unfolding step
          by (simp add: updateProductStock_accepted [OF True r]
              setCartItems_def writeCart_def readCart_def)
      next
        case False
        from updateProductStock_refused [OF False, of c] obtain e
          where "updateProductStock w c i (- delta) = (w\<lparr>network := tl (network w)\<rparr>, Inl e)"
          by blast
        with reserved_total_same [OF inv] show ?thesis
          unfolding step by (simp add: notify_def)
      qed
    qed
  qed
qed

lemma apply_op_keeps_total:
  assumes "reserved_total i n s" and "above_minimum i opn (snd s)"
  shows "reserved_total i n (apply_op i opn s)"
proof (cases s)
  case (Pair w c)
  show ?thesis
  proof (cases opn)
    case (SetQuantity q)
    with assms Pair reserved_total_same [of i n w c w "setQuantity c i q"] show ?thesis
      by (simp add: setQuantity_def)
  next
    case AddToCart
    show ?thesis
    proof (cases "find (\<lambda>p. product_id p = i) (featuredProducts c)")
      case None
      with assms Pair AddToCart show ?thesis by simp
    next
      case (Some p)
      then have "product_id p = i"
        by (auto simp add: find_Some_iff)
      with assms Pair AddToCart Some show ?thesis
        by (simp add: addToCart_keeps_total)
    qed
  next
    case (UpdateCartQuantity delta)
    with assms Pair show ?thesis
      by (simp add: updateCartQuantity_keeps_total)
  next
    case RemoveFromCart
    with assms Pair show ?thesis
      by (simp add: removeFromCart_keeps_total)
  qed
qed

text \<open>
  For every sequence of operations of one client on one product in which no decrease
  would take the cart line below 1, whatever the requests' fates: the stock plus the
  quantity held in the cart stays what it was, and the stock is never negative.
\<close>

lemma reservation_invariant:
  "reserved_total i n s \<and> stays_above_minimum i ops s \<longrightarrow> reserved_total i n (run i ops s)"
proof (induction ops arbitrary: s)
  case Nil
  show ?case by simp
next
  case (Cons opn ops)
  show ?case
  proof
    assume H: "reserved_total i n s \<and> stays_above_minimum i (opn # ops) s"
    then have "reserved_total i n (apply_op i opn s)"
      by (simp add: apply_op_keeps_total)
    with H Cons.IH [of "apply_op i opn s"] show "reserved_total i n (run i (opn # ops) s)"
      by simp
  qed
qed

end
